theory Spec2Isabelle
  imports Main "HOL-Library.Sublist" "HOL-Library.AList"
begin

section \<open>Errors and results\<close>

text \<open>
  Every error the storer package returns is built by \<open>fmt.Errorf\<close>: an error value is
  its message. Indexing an empty slice is a run-time panic, which is not an error value
  and is kept apart. A fallible function returns \<open>go_error + 'a\<close>, \<open>Inl\<close> the failure.
\<close>

datatype go_error = Error string | Panic string

definition index_out_of_range :: go_error where
  "index_out_of_range = Panic ''runtime error: index out of range [0] with length 0''"

section \<open>The etcd client (go.etcd.io/etcd/client/v3)\<close>

text \<open>
  The data of the client library that \<open>etcd.go\<close> reads: a key-value pair, the response
  of a range read with its \<open>Count\<close> (an int64) and its \<open>Kvs\<close>, and a watch response
  with its events.
\<close>

record KeyValue =
  Key :: string
  Value :: string

record GetResponse =
  Count :: int
  Kvs :: "KeyValue list"

datatype EventType = EventTypePut | EventTypeDelete

record Event =
  Type :: EventType
  Kv :: KeyValue

record WatchResponse =
  Events :: "Event list"
  Canceled :: bool

text \<open>
  The client itself is outside the repository. It is a parameter: a table of the two
  calls \<open>etcd.go\<close> makes on it, over a backend state \<open>'b\<close>. \<open>client_Get b key p\<close> is
  \<open>client.Get(ctx, key)\<close> when \<open>p\<close> is False and \<open>client.Get(ctx, key, WithPrefix())\<close>
  when it is True; \<open>Inl\<close> carries the text of the transport error. \<open>client_Put\<close> also
  returns the backend state after the call.
\<close>

record 'b Client =
  client_Get :: "'b \<Rightarrow> string \<Rightarrow> bool \<Rightarrow> string + GetResponse"
  client_Put :: "'b \<Rightarrow> string \<Rightarrow> string \<Rightarrow> string option \<times> 'b"

section \<open>utils.Message\<close>

text \<open>
  Modelled from the spec: the package \<open>utils\<close> is missing. A \<open>Message\<close> is the
  "ordered sequence of (path, value)" that \<open>List\<close> returns; \<open>Add\<close> appends one pair
  (\<open>store.go\<close> reads the pairs back as \<open>ret[i].Key\<close> and \<open>ret[i].Value\<close>).
\<close>

type_synonym Message = "(string \<times> string) list"

definition Message_Add :: "Message \<Rightarrow> string \<Rightarrow> string \<Rightarrow> Message" where
  "Message_Add msg key value = msg @ [(key, value)]"

section \<open>etcd.go\<close>

definition DirPlaceholder :: string where
  "DirPlaceholder = ''init_dir''"

text \<open>\<open>func (s *EtcdV3) Get\<close>. The time-out context and the log calls have no result.\<close>

definition EtcdV3_Get :: "'b Client \<Rightarrow> 'b \<Rightarrow> string \<Rightarrow> go_error + string" where
  "EtcdV3_Get cli b key =
     (case client_Get cli b key False of
        Inl err \<Rightarrow> Inl (Error (''etcd get key['' @ key @ ''] failed: '' @ err))
      | Inr resp \<Rightarrow>
          if Count resp = 0
          then Inl (Error (''etcd get key['' @ key @ ''] is not found''))
          else (case Kvs resp of
                  [] \<Rightarrow> Inl index_out_of_range
                | kv # _ \<Rightarrow> Inr (Value kv)))"

text \<open>
  \<open>func (s *EtcdV3) List\<close>: only \<open>resp.Kvs[0]\<close> is compared with the placeholder; the
  loop then adds every remaining pair.
\<close>

definition EtcdV3_List :: "'b Client \<Rightarrow> 'b \<Rightarrow> string \<Rightarrow> go_error + Message" where
  "EtcdV3_List cli b pfx =
     (case client_Get cli b pfx True of
        Inl err \<Rightarrow> Inl (Error (''etcd list prefix['' @ pfx @ ''] failed: '' @ err))
      | Inr resp \<Rightarrow>
          if Count resp = 0
          then Inl (Error (''etcd list prefix['' @ pfx @ ''] is not found''))
          else (case Kvs resp of
                  [] \<Rightarrow> Inl index_out_of_range
                | kv # rest \<Rightarrow>
                    let kvs = (if Value kv = DirPlaceholder then rest else kv # rest)
                    in Inr (foldl (\<lambda>ret kv. Message_Add ret (Key kv) (Value kv)) [] kvs)))"

text \<open>\<open>func (s *EtcdV3) Create\<close> and \<open>func (s *EtcdV3) Update\<close>.\<close>

definition EtcdV3_Create :: "'b Client \<Rightarrow> 'b \<Rightarrow> string \<Rightarrow> string \<Rightarrow> go_error option \<times> 'b" where
  "EtcdV3_Create cli b key value =
     (case client_Put cli b key value of
        (Some err, b') \<Rightarrow> (Some (Error (''etcd put key['' @ key @ ''] failed: '' @ err)), b')
      | (None, b') \<Rightarrow> (None, b'))"

definition EtcdV3_Update :: "'b Client \<Rightarrow> 'b \<Rightarrow> string \<Rightarrow> string \<Rightarrow> go_error option \<times> 'b" where
  "EtcdV3_Update cli b key value =
     (case client_Put cli b key value of
        (Some err, b') \<Rightarrow> (Some (Error (''etcd update key['' @ key @ ''] failed: '' @ err)), b')
      | (None, b') \<Rightarrow> (None, b'))"

text \<open>
  Modelled from the spec: \<open>StoreEvent\<close>, \<open>NewStoreEvent\<close> and \<open>StoreEvent.Add\<close> are
  missing. A change event is "a cancellation flag plus an ordered sequence of (operation,
  key, value) items", the operation one of Add and Delete (the constants
  \<open>utils.EventAdd\<close> and \<open>utils.EventDelete\<close>); \<open>Add\<close> "accumulates items and skips
  malformed ones". What makes an item malformed is not said: it is the parameter
  \<open>malformed\<close>.
\<close>

datatype Operation = EventAdd | EventDelete

record StoreEvent =
  Cancelled :: bool
  Items :: "(Operation \<times> string \<times> string) list"

definition NewStoreEvent :: "bool \<Rightarrow> StoreEvent" where
  "NewStoreEvent canceled = \<lparr>Cancelled = canceled, Items = []\<rparr>"

definition StoreEvent_Add ::
  "(Operation \<Rightarrow> string \<Rightarrow> string \<Rightarrow> bool) \<Rightarrow> StoreEvent \<Rightarrow> Operation \<Rightarrow> string \<Rightarrow> string
     \<Rightarrow> go_error option \<times> StoreEvent" where
  "StoreEvent_Add malformed e typ key value =
     (if malformed typ key value then (Some (Error ''malformed event''), e)
      else (None, e\<lparr>Items := Items e @ [(typ, key, value)]\<rparr>))"

text \<open>
  \<open>func (s *EtcdV3) Watch\<close>. \<open>Watch_event\<close> is the body of the inner loop for one event
  \<open>ev\<close>, \<open>Watch_batch\<close> the translation of one watch response, and \<open>EtcdV3_Watch\<close> the
  events sent on the channel, in order, for the responses the client delivers. A failed
  \<open>Add\<close> is logged and the loop goes on.
\<close>

definition Watch_event ::
  "(Operation \<Rightarrow> string \<Rightarrow> string \<Rightarrow> bool) \<Rightarrow> StoreEvent \<Rightarrow> Event \<Rightarrow> StoreEvent" where
  "Watch_event malformed storeEvent ev =
     (if Value (Kv ev) = DirPlaceholder then storeEvent
      else
        let key = Key (Kv ev);
            value = Value (Kv ev);
            typ = (case Type ev of EventTypePut \<Rightarrow> EventAdd | EventTypeDelete \<Rightarrow> EventDelete)
        in snd (StoreEvent_Add malformed storeEvent typ key value))"

definition Watch_batch ::
  "(Operation \<Rightarrow> string \<Rightarrow> string \<Rightarrow> bool) \<Rightarrow> WatchResponse \<Rightarrow> StoreEvent" where
  "Watch_batch malformed event =
     foldl (Watch_event malformed) (NewStoreEvent (Canceled event)) (Events event)"

definition EtcdV3_Watch ::
  "(Operation \<Rightarrow> string \<Rightarrow> string \<Rightarrow> bool) \<Rightarrow> WatchResponse list \<Rightarrow> StoreEvent list" where
  "EtcdV3_Watch malformed eventChan = map (Watch_batch malformed) eventChan"

section \<open>A reference backend\<close>

text \<open>
  To speak of keys that were never written, the backend is given a reference behaviour:
  a list of key-value pairs with distinct keys, a put that replaces or adds the pair of
  its key, and a range read that returns the pairs of the key (or of the keys that start
  with it) and counts them. \<open>fault\<close> is the transport failure of the call, if any.
\<close>

type_synonym kvstore = "(string \<times> string) list"

definition kv_range :: "kvstore \<Rightarrow> string \<Rightarrow> bool \<Rightarrow> GetResponse" where
  "kv_range st key with_prefix =
     (let hits = filter (\<lambda>p. if with_prefix then prefix key (fst p) else fst p = key) st
      in \<lparr>Count = int (length hits), Kvs = map (\<lambda>p. \<lparr>Key = fst p, Value = snd p\<rparr>) hits\<rparr>)"

definition kv_client :: "string option \<Rightarrow> kvstore Client" where
  "kv_client fault =
     \<lparr>client_Get = (\<lambda>st key with_prefix.
        case fault of Some e \<Rightarrow> Inl e | None \<Rightarrow> Inr (kv_range st key with_prefix)),
      client_Put = (\<lambda>st key value.
        case fault of Some e \<Rightarrow> (Some e, st) | None \<Rightarrow> (None, AList.update key value st))\<rparr>"

definition kv_written :: "(string \<times> string) list \<Rightarrow> kvstore" where
  "kv_written ws = foldl (\<lambda>st w. AList.update (fst w) (snd w) st) [] ws"

section \<open>The domain objects (package entity)\<close>

text \<open>
  Modelled from the spec: the package \<open>entity\<close> is missing. A domain object "may implement
  neither, one, or both" of two capabilities: the identifier holder (\<open>BaseInfoSetter\<close>,
  whose \<open>GetBaseInfo\<close> gives the base information with the identifier and the update
  bookkeeping) and the node-list holder (\<open>NodesSetter\<close>, whose \<open>SetNodes\<close> replaces the
  node list). An object holds the data of a capability exactly when its type has the
  capability: \<open>info_of\<close> and \<open>nodes_of\<close> are \<open>None\<close> otherwise. \<open>is_aller\<close> says that the
  type has the whole-object marshalling capability (\<open>Aller\<close>); \<open>body\<close> is the rest of
  the object.
\<close>

record Node =
  Host :: string
  Port :: int
  Weight :: int

record BaseInfo =
  ID :: string
  CreateTime :: int
  UpdateTime :: int

record Object =
  info_of :: "BaseInfo option"
  nodes_of :: "Node list option"
  is_aller :: bool
  body :: string

text \<open>
  The encoders and decoders (\<open>encoding/json\<close>, and \<open>entity.Marshal\<close> and
  \<open>entity.Unmarshal\<close>) and the "mark updated" hook \<open>BaseInfo.Updating\<close> are parameters.
  An encoder returns the text of its error or the bytes; a decoder is given the bytes
  and the freshly allocated object and returns the text of its error or the object
  filled in.
\<close>

record Codec =
  json_Marshal :: "Object \<Rightarrow> string + string"
  json_Unmarshal :: "string \<Rightarrow> Object \<Rightarrow> string + Object"
  entity_Marshal :: "Object \<Rightarrow> string + string"
  entity_Unmarshal :: "string \<Rightarrow> Object \<Rightarrow> string + Object"
  Updating :: "BaseInfo \<Rightarrow> BaseInfo \<Rightarrow> BaseInfo"

section \<open>The key path utility\<close>

text \<open>
  Modelled from the spec: \<open>FromatKey\<close> is missing. It "splits a path of the form
  <prefix>/<resourceType>/<identifier...> (the configured prefix is stripped first) and
  returns the last path segment as the identifier candidate. Returns an empty identifier
  if the path has fewer than two meaningful segments after the prefix." Only its third
  result, the identifier, is read by \<open>store.go\<close>; \<open>FromatKey_id\<close> is that result. A
  meaningful segment is a non-empty one.
\<close>

fun split_on :: "char \<Rightarrow> string \<Rightarrow> string list" where
  "split_on c [] = [[]]"
| "split_on c (x # xs) =
     (if x = c then [] # split_on c xs
      else (case split_on c xs of [] \<Rightarrow> [[x]] | y # ys \<Rightarrow> (x # y) # ys))"

definition TrimPrefix :: "string \<Rightarrow> string \<Rightarrow> string" where
  "TrimPrefix s p = (if prefix p s then drop (length p) s else s)"

definition segments :: "string \<Rightarrow> string \<Rightarrow> string list" where
  "segments key pfx = filter (\<lambda>seg. seg \<noteq> []) (split_on CHR ''/'' (TrimPrefix key pfx))"

definition FromatKey_id :: "string \<Rightarrow> string \<Rightarrow> string" where
  "FromatKey_id key pfx =
     (let segs = segments key pfx in if length segs < 2 then [] else last segs)"

section \<open>store.go\<close>

text \<open>
  The backend behind a store is the interface \<open>Interface\<close>: a table of its methods over a
  backend state \<open>'b\<close>, each returning the state after the call. \<open>Watch\<close> is left out: no
  function below calls it. \<open>ObjType\<close> is the configured shape, given by the zero value
  that \<open>reflect.New\<close> allocates.
\<close>

record 'b Interface =
  Stg_List :: "'b \<Rightarrow> string \<Rightarrow> (go_error + Message) \<times> 'b"
  Stg_Update :: "'b \<Rightarrow> string \<Rightarrow> string \<Rightarrow> go_error option \<times> 'b"

record GenericStoreOption =
  BasePath :: string
  Prefix :: string
  ObjType :: Object

text \<open>
  The cache is a \<open>sync.Map\<close>, here a map from keys to the cached values, read and changed
  one call at a time. In Go the cached values are pointers to the objects; no function
  below compares two pointers, so a cached pointer is represented by the object it points
  to, and changing the object through the pointer is changing the cache entry.
\<close>

record ('b, 'v) GenericStore =
  Typ :: string
  Stg :: "'b Interface"
  cache :: "string \<rightharpoonup> 'v"
  opt :: GenericStoreOption

text \<open>\<open>sync.Map.LoadOrStore\<close> and \<open>sync.Map.LoadAndDelete\<close>, as the Go library documents them.\<close>

definition LoadOrStore :: "(string \<rightharpoonup> 'v) \<Rightarrow> string \<Rightarrow> 'v \<Rightarrow> ('v \<times> bool) \<times> (string \<rightharpoonup> 'v)" where
  "LoadOrStore m key value =
     (case m key of
        Some actual \<Rightarrow> ((actual, True), m)
      | None \<Rightarrow> ((value, False), m(key \<mapsto> value)))"

definition LoadAndDelete :: "(string \<rightharpoonup> 'v) \<Rightarrow> string \<Rightarrow> ('v option \<times> bool) \<times> (string \<rightharpoonup> 'v)" where
  "LoadAndDelete m key =
     (case m key of
        Some value \<Rightarrow> ((Some value, True), m(key := None))
      | None \<Rightarrow> ((None, False), m))"

text \<open>\<open>func (s *GenericStore) Store\<close> and \<open>func (s *GenericStore) Delete\<close>.\<close>

definition Store ::
  "('b, 'v) GenericStore \<Rightarrow> string \<Rightarrow> 'v \<Rightarrow> ('v \<times> bool) \<times> ('b, 'v) GenericStore" where
  "Store s key objPtr =
     (case LoadOrStore (cache s) key objPtr of
        ((oldObj, ok), m) \<Rightarrow>
          ((oldObj, ok), s\<lparr>cache := (if ok then m(key \<mapsto> objPtr) else m)\<rparr>))"

definition GenericStore_Delete ::
  "('b, 'v) GenericStore \<Rightarrow> string \<Rightarrow> ('v option \<times> bool) \<times> ('b, 'v) GenericStore" where
  "GenericStore_Delete s key =
     (case LoadAndDelete (cache s) key of (r, m) \<Rightarrow> (r, s\<lparr>cache := m\<rparr>))"

text \<open>\<open>func (s *GenericStore) StringToObjPtr\<close>.\<close>

definition unmarshal_failed :: "string \<Rightarrow> string \<Rightarrow> go_error" where
  "unmarshal_failed key err =
     Error (''unmarshal failed'' @ [CHR 0x0A, CHR 0x09] @ ''Related Key:'' @ [CHR 0x09, CHR 0x09]
            @ key @ [CHR 0x0A, CHR 0x09] @ ''Error Description:'' @ [CHR 0x09] @ err)"

definition StringToObjPtr ::
  "Codec \<Rightarrow> ('b, 'v) GenericStore \<Rightarrow> string \<Rightarrow> string \<Rightarrow> go_error + Object" where
  "StringToObjPtr E s str key =
     (let ret = ObjType (opt s) in
      case (if is_aller ret then entity_Unmarshal E str ret else json_Unmarshal E str ret) of
        Inl err \<Rightarrow> Inl (unmarshal_failed key err)
      | Inr ret \<Rightarrow>
          (case info_of ret of
             None \<Rightarrow> Inr ret
           | Some info \<Rightarrow>
               if ID info = []
               then (let id = FromatKey_id key (Prefix (opt s))
                     in if id \<noteq> [] then Inr (ret\<lparr>info_of := Some (info\<lparr>ID := id\<rparr>)\<rparr>)
                        else Inr ret)
               else Inr ret))"

text \<open>
  \<open>func (s *GenericStore) List\<close>: \<open>List_loop\<close> is the loop over the listing, with the
  store and the slice \<open>objPtrs\<close> built so far; a \<open>nil\<close> filter is \<open>None\<close>.
\<close>

fun List_loop ::
  "Codec \<Rightarrow> (Object \<Rightarrow> bool) option \<Rightarrow> ('b, Object) GenericStore \<Rightarrow> Message \<Rightarrow> Object list
     \<Rightarrow> (go_error + Object list) \<times> ('b, Object) GenericStore" where
  "List_loop E filter_opt s [] objPtrs = (Inr objPtrs, s)"
| "List_loop E filter_opt s (kv # ret) objPtrs =
     (case StringToObjPtr E s (snd kv) (fst kv) of
        Inl err \<Rightarrow> (Inl err, s)
      | Inr objPtr \<Rightarrow>
          if (case filter_opt of None \<Rightarrow> True | Some f \<Rightarrow> f objPtr)
          then List_loop E filter_opt (snd (Store s (fst kv) objPtr)) ret (objPtrs @ [objPtr])
          else List_loop E filter_opt s ret objPtrs)"

definition GenericStore_List ::
  "Codec \<Rightarrow> ('b, Object) GenericStore \<Rightarrow> 'b \<Rightarrow> (Object \<Rightarrow> bool) option
     \<Rightarrow> (go_error + Object list) \<times> ('b, Object) GenericStore \<times> 'b" where
  "GenericStore_List E s b filter_opt =
     (case Stg_List (Stg s) b (BasePath (opt s)) of
        (Inl err, b') \<Rightarrow> (Inl err, s, b')
      | (Inr ret, b') \<Rightarrow>
          (case List_loop E filter_opt s ret [] of (r, s') \<Rightarrow> (r, s', b')))"

text \<open>
  \<open>func (s *GenericStore) UpdateNodes\<close>. \<open>SetNodes\<close> and \<open>Updating\<close> change the cached
  object in place, before the object is encoded and before the backend is called.
\<close>

definition UpdateNodes ::
  "Codec \<Rightarrow> ('b, Object) GenericStore \<Rightarrow> 'b \<Rightarrow> string \<Rightarrow> Node list
     \<Rightarrow> go_error option \<times> ('b, Object) GenericStore \<times> 'b" where
  "UpdateNodes E s b key nds =
     (if key = [] then (Some (Error ''key is required''), s, b)
      else
        case cache s key of
          None \<Rightarrow> (Some (Error (''key: '' @ key @ '' is not found'')), s, b)
        | Some storedObj \<Rightarrow>
            (case nodes_of storedObj of
               None \<Rightarrow> (Some (Error ''object can't set nodes''), s, b)
             | Some _ \<Rightarrow>
                 let obj1 = storedObj\<lparr>nodes_of := Some nds\<rparr>;
                     obj2 = (case info_of obj1 of
                               None \<Rightarrow> obj1
                             | Some info \<Rightarrow> obj1\<lparr>info_of := Some (Updating E info info)\<rparr>);
                     s' = s\<lparr>cache := (cache s)(key \<mapsto> obj2)\<rparr>
                 in (case (if is_aller obj2 then entity_Marshal E obj2 else json_Marshal E obj2) of
                       Inl err \<Rightarrow> (Some (Error (''marshal failed: '' @ err)), s', b)
                     | Inr bs \<Rightarrow>
                         (case Stg_Update (Stg s) b key bs of (err, b') \<Rightarrow> (err, s', b')))))"

text \<open>
  \<open>EtcdV3\<close> is the implementation of \<open>Interface\<close> that the repository provides: the store
  calls its \<open>List\<close> and its \<open>Update\<close>.
\<close>

definition EtcdV3_Interface :: "'b Client \<Rightarrow> 'b Interface" where
  "EtcdV3_Interface cli =
     \<lparr>Stg_List = (\<lambda>b pfx. (EtcdV3_List cli b pfx, b)),
      Stg_Update = (\<lambda>b key value. EtcdV3_Update cli b key value)\<rparr>"

section \<open>The listing in the words of the specification\<close>

text \<open>
  The specification of \<open>List\<close>: it "decodes every returned value", "applies the optional
  predicate", and the objects that pass (all of them when no predicate is given) are the
  accepted objects, "in backend listing order". \<open>List_accepted\<close> pairs each accepted
  object with its original path. It is compared with the loop of the source below.
\<close>

definition accepted :: "(Object \<Rightarrow> bool) option \<Rightarrow> Object \<Rightarrow> bool" where
  "accepted filter_opt obj = (case filter_opt of None \<Rightarrow> True | Some f \<Rightarrow> f obj)"

definition List_accepted ::
  "Codec \<Rightarrow> ('b, 'v) GenericStore \<Rightarrow> (Object \<Rightarrow> bool) option \<Rightarrow> Message \<Rightarrow> (string \<times> Object) list" where
  "List_accepted E s filter_opt ret =
     filter (\<lambda>p. accepted filter_opt (snd p))
       (map (\<lambda>kv. (fst kv, projr (StringToObjPtr E s (snd kv) (fst kv)))) ret)"

section \<open>Example instances\<close>

text \<open>
  Concrete instances at which the theorems are evaluated: a codec that keeps the bytes as
  the body of the object and rejects the empty input, a route type with both capabilities,
  a plain type with none, and a store over the reference backend.
\<close>

definition example_codec :: Codec where
  "example_codec =
     \<lparr>json_Marshal = (\<lambda>obj. if body obj = [] then Inl ''unsupported value'' else Inr (body obj)),
      json_Unmarshal = (\<lambda>str ret.
        if str = [] then Inl ''unexpected end of JSON input'' else Inr (ret\<lparr>body := str\<rparr>)),
      entity_Marshal = (\<lambda>obj. if body obj = [] then Inl ''unsupported value'' else Inr (body obj)),
      entity_Unmarshal = (\<lambda>str ret.
        if str = [] then Inl ''unexpected end of JSON input'' else Inr (ret\<lparr>body := str\<rparr>)),
      Updating = (\<lambda>info storedInfo. info\<lparr>ID := ID storedInfo, CreateTime := CreateTime storedInfo,
        UpdateTime := UpdateTime storedInfo + 1\<rparr>)\<rparr>"

definition example_route :: Object where
  "example_route =
     \<lparr>info_of = Some \<lparr>ID = [], CreateTime = 0, UpdateTime = 0\<rparr>, nodes_of = Some [],
      is_aller = False, body = []\<rparr>"

definition example_plain :: Object where
  "example_plain = \<lparr>info_of = None, nodes_of = None, is_aller = False, body = ''{}''\<rparr>"

definition example_store :: "string option \<Rightarrow> (kvstore, Object) GenericStore" where
  "example_store fault =
     \<lparr>Typ = ''routes'', Stg = EtcdV3_Interface (kv_client fault), cache = Map.empty,
      opt = \<lparr>BasePath = ''/apisix/routes'', Prefix = ''/apisix'', ObjType = example_route\<rparr>\<rparr>"

section \<open>Properties of etcd.go\<close>

subsection \<open>The directory placeholder\<close>

lemma foldl_Message_Add:
  "foldl (\<lambda>ret kv. Message_Add ret (Key kv) (Value kv)) acc kvs
     = acc @ map (\<lambda>kv. (Key kv, Value kv)) kvs"
  by (induction kvs arbitrary: acc) (simp_all add: Message_Add_def)

lemma Watch_event_Items:
  "set (Items (Watch_event malformed e ev))
     \<subseteq> set (Items e) \<union> {it. snd (snd it) \<noteq> DirPlaceholder}"
  by (auto simp: Watch_event_def StoreEvent_Add_def Let_def)

lemma foldl_Watch_event_Items:
  "set (Items (foldl (Watch_event malformed) e evs))
     \<subseteq> set (Items e) \<union> {it. snd (snd it) \<noteq> DirPlaceholder}"
proof (induction evs arbitrary: e)
  case Nil
  show ?case by simp
next
  case (Cons ev evs)
  have "set (Items (foldl (Watch_event malformed) (Watch_event malformed e ev) evs))
          \<subseteq> set (Items (Watch_event malformed e ev)) \<union> {it. snd (snd it) \<noteq> DirPlaceholder}"
    by (rule Cons.IH)
  with Watch_event_Items [of malformed e ev] show ?case by auto
qed

lemma Watch_batch_no_placeholder:
  "it \<in> set (Items (Watch_batch malformed event)) \<Longrightarrow> snd (snd it) \<noteq> DirPlaceholder"
  using foldl_Watch_event_Items [of malformed "NewStoreEvent (Canceled event)" "Events event"]
  by (auto simp: Watch_batch_def NewStoreEvent_def)

lemma EtcdV3_List_Inr:
  "EtcdV3_List cli b pfx = Inr ret \<Longrightarrow>
     \<exists>resp kv rest. client_Get cli b pfx True = Inr resp \<and> Kvs resp = kv # rest \<and>
       ret = map (\<lambda>kv. (Key kv, Value kv)) (if Value kv = DirPlaceholder then rest else kv # rest)"
  by (auto simp: EtcdV3_List_def Let_def foldl_Message_Add split: sum.splits if_splits list.splits)

text \<open>
  C1, as it holds of the code. \<open>Watch\<close> drops every event whose value is the directory
  placeholder, so no item of any change event it sends carries the placeholder. \<open>List\<close>
  compares only the first entry of the response with the placeholder: its result carries
  no placeholder when no entry after the first one does.
\<close>

theorem placeholder_not_surfaced:
  "(\<forall>e \<in> set (EtcdV3_Watch malformed eventChan). \<forall>it \<in> set (Items e). snd (snd it) \<noteq> DirPlaceholder)
   \<and> (client_Get cli b pfx True = Inr resp \<longrightarrow>
        (\<forall>kv \<in> set (tl (Kvs resp)). Value kv \<noteq> DirPlaceholder) \<longrightarrow>
        EtcdV3_List cli b pfx = Inr ret \<longrightarrow>
        (\<forall>p \<in> set ret. snd p \<noteq> DirPlaceholder))"
proof (intro conjI impI)
  show "\<forall>e \<in> set (EtcdV3_Watch malformed eventChan). \<forall>it \<in> set (Items e). snd (snd it) \<noteq> DirPlaceholder"
    by (auto simp: EtcdV3_Watch_def dest: Watch_batch_no_placeholder)
next
  assume g: "client_Get cli b pfx True = Inr resp"
    and t: "\<forall>kv \<in> set (tl (Kvs resp)). Value kv \<noteq> DirPlaceholder"
    and l: "EtcdV3_List cli b pfx = Inr ret"
  from EtcdV3_List_Inr [OF l] g obtain kv rest where
    k: "Kvs resp = kv # rest" and
    r: "ret = map (\<lambda>kv. (Key kv, Value kv)) (if Value kv = DirPlaceholder then rest else kv # rest)"
    by auto
  from t k have "\<forall>x \<in> set rest. Value x \<noteq> DirPlaceholder" by simp
  with r show "\<forall>p \<in> set ret. snd p \<noteq> DirPlaceholder" by auto
qed

theorem placeholder_not_surfaced_witness:
  "EtcdV3_Watch (\<lambda>typ key value. False)
     [\<lparr>Events = [\<lparr>Type = EventTypePut, Kv = \<lparr>Key = ''/apisix/routes/2'', Value = ''{}''\<rparr>\<rparr>,
                 \<lparr>Type = EventTypePut, Kv = \<lparr>Key = ''/apisix/routes'', Value = ''init_dir''\<rparr>\<rparr>],
       Canceled = False\<rparr>]
     = [\<lparr>Cancelled = False, Items = [(EventAdd, ''/apisix/routes/2'', ''{}'')]\<rparr>]
   \<and> list_all (\<lambda>e. list_all (\<lambda>it. snd (snd it) \<noteq> DirPlaceholder) (Items e))
       (EtcdV3_Watch (\<lambda>typ key value. False)
         [\<lparr>Events = [\<lparr>Type = EventTypePut, Kv = \<lparr>Key = ''/apisix/routes/2'', Value = ''{}''\<rparr>\<rparr>,
                     \<lparr>Type = EventTypePut, Kv = \<lparr>Key = ''/apisix/routes'', Value = ''init_dir''\<rparr>\<rparr>],
           Canceled = False\<rparr>])
   \<and> client_Get (kv_client None) [(''/apisix/routes'', ''init_dir''), (''/apisix/routes/1'', ''{}'')]
        ''/apisix/routes'' True
       = Inr \<lparr>Count = 2, Kvs = [\<lparr>Key = ''/apisix/routes'', Value = ''init_dir''\<rparr>,
                                 \<lparr>Key = ''/apisix/routes/1'', Value = ''{}''\<rparr>]\<rparr>
   \<and> EtcdV3_List (kv_client None) [(''/apisix/routes'', ''init_dir''), (''/apisix/routes/1'', ''{}'')]
        ''/apisix/routes'' = Inr [(''/apisix/routes/1'', ''{}'')]
   \<and> list_all (\<lambda>p. snd p \<noteq> DirPlaceholder) [(''/apisix/routes/1'', ''{}'')]"
  using placeholder_not_surfaced [of "\<lambda>typ key value. False"
      "[\<lparr>Events = [\<lparr>Type = EventTypePut, Kv = \<lparr>Key = ''/apisix/routes/2'', Value = ''{}''\<rparr>\<rparr>,
                  \<lparr>Type = EventTypePut, Kv = \<lparr>Key = ''/apisix/routes'', Value = ''init_dir''\<rparr>\<rparr>],
        Canceled = False\<rparr>]"
      "kv_client None" "[(''/apisix/routes'', ''init_dir''), (''/apisix/routes/1'', ''{}'')]"
      "''/apisix/routes''"
      "\<lparr>Count = 2, Kvs = [\<lparr>Key = ''/apisix/routes'', Value = ''init_dir''\<rparr>,
                          \<lparr>Key = ''/apisix/routes/1'', Value = ''{}''\<rparr>]\<rparr>"
      "[(''/apisix/routes/1'', ''{}'')]"]
  by (simp add: EtcdV3_Watch_def Watch_batch_def Watch_event_def NewStoreEvent_def
      StoreEvent_Add_def EtcdV3_List_def kv_client_def kv_range_def DirPlaceholder_def
      Message_Add_def)

text \<open>
  C1 as it is stated, "regardless of where in the backend response the placeholder entry
  appears", fails: listing \<open>/apisix\<close> over two directory markers drops the first one only
  and returns the second.
\<close>

theorem placeholder_second_entry_listed:
  "EtcdV3_List (kv_client None)
     [(''/apisix/routes'', ''init_dir''), (''/apisix/services'', ''init_dir'')] ''/apisix''
   = Inr [(''/apisix/services'', DirPlaceholder)]"
  by (simp add: EtcdV3_List_def kv_client_def kv_range_def DirPlaceholder_def Message_Add_def)

subsection \<open>Keys that were never written\<close>

lemma dom_kv_written_aux:
  "fst ` set (foldl (\<lambda>st w. AList.update (fst w) (snd w) st) st0 ws) = fst ` set st0 \<union> fst ` set ws"
  by (induction ws arbitrary: st0) (auto simp: dom_update)

lemma dom_kv_written: "fst ` set (kv_written ws) = fst ` set ws"
  by (simp add: kv_written_def dom_kv_written_aux)

lemma kv_range_empty:
  "\<forall>k \<in> fst ` set st. \<not> (if p then prefix key k else k = key) \<Longrightarrow>
     kv_range st key p = \<lparr>Count = 0, Kvs = []\<rparr>"
proof -
  assume a: "\<forall>k \<in> fst ` set st. \<not> (if p then prefix key k else k = key)"
  have "filter (\<lambda>q. if p then prefix key (fst q) else fst q = key) st = []"
    using a by (auto simp: filter_empty_conv)
  then show ?thesis by (simp add: kv_range_def)
qed

lemma Get_zero_count:
  "client_Get cli b key False = Inr resp \<Longrightarrow> Count resp = 0 \<Longrightarrow>
     EtcdV3_Get cli b key = Inl (Error (''etcd get key['' @ key @ ''] is not found''))"
  by (simp add: EtcdV3_Get_def)

lemma List_zero_count:
  "client_Get cli b pfx True = Inr resp \<Longrightarrow> Count resp = 0 \<Longrightarrow>
     EtcdV3_List cli b pfx = Inl (Error (''etcd list prefix['' @ pfx @ ''] is not found''))"
  by (simp add: EtcdV3_List_def)

text \<open>
  C2. On the reference backend, \<open>Get\<close> on a key that no write named and \<open>List\<close> on a
  prefix that starts no written key return the not-found error. For every client, a
  response that counts zero results gives the not-found error, and a transport failure
  gives the wrapped transport error, which differs from the not-found error of the same
  key or prefix.
\<close>

theorem never_written_not_found:
  "(key \<notin> fst ` set ws \<longrightarrow>
      EtcdV3_Get (kv_client None) (kv_written ws) key
        = Inl (Error (''etcd get key['' @ key @ ''] is not found'')))
   \<and> ((\<forall>w \<in> set ws. \<not> prefix pfx (fst w)) \<longrightarrow>
      EtcdV3_List (kv_client None) (kv_written ws) pfx
        = Inl (Error (''etcd list prefix['' @ pfx @ ''] is not found'')))
   \<and> (client_Get cli b key False = Inr resp \<and> Count resp = 0 \<longrightarrow>
      EtcdV3_Get cli b key = Inl (Error (''etcd get key['' @ key @ ''] is not found'')))
   \<and> (client_Get cli b pfx True = Inr resp \<and> Count resp = 0 \<longrightarrow>
      EtcdV3_List cli b pfx = Inl (Error (''etcd list prefix['' @ pfx @ ''] is not found'')))
   \<and> (client_Get cli b key False = Inl err \<longrightarrow>
      EtcdV3_Get cli b key = Inl (Error (''etcd get key['' @ key @ ''] failed: '' @ err))
      \<and> EtcdV3_Get cli b key \<noteq> Inl (Error (''etcd get key['' @ key @ ''] is not found'')))
   \<and> (client_Get cli b pfx True = Inl err \<longrightarrow>
      EtcdV3_List cli b pfx = Inl (Error (''etcd list prefix['' @ pfx @ ''] failed: '' @ err))
      \<and> EtcdV3_List cli b pfx \<noteq> Inl (Error (''etcd list prefix['' @ pfx @ ''] is not found'')))"
proof (intro conjI impI)
  assume "key \<notin> fst ` set ws"
  then have "kv_range (kv_written ws) key False = \<lparr>Count = 0, Kvs = []\<rparr>"
    by (intro kv_range_empty) (auto simp: dom_kv_written)
  then show "EtcdV3_Get (kv_client None) (kv_written ws) key
        = Inl (Error (''etcd get key['' @ key @ ''] is not found''))"
    by (intro Get_zero_count [where resp = "\<lparr>Count = 0, Kvs = []\<rparr>"]) (simp_all add: kv_client_def)
next
  assume "\<forall>w \<in> set ws. \<not> prefix pfx (fst w)"
  then have "kv_range (kv_written ws) pfx True = \<lparr>Count = 0, Kvs = []\<rparr>"
    by (intro kv_range_empty) (auto simp: dom_kv_written)
  then show "EtcdV3_List (kv_client None) (kv_written ws) pfx
        = Inl (Error (''etcd list prefix['' @ pfx @ ''] is not found''))"
    by (intro List_zero_count [where resp = "\<lparr>Count = 0, Kvs = []\<rparr>"]) (simp_all add: kv_client_def)
next
  assume "client_Get cli b key False = Inr resp \<and> Count resp = 0"
  then show "EtcdV3_Get cli b key = Inl (Error (''etcd get key['' @ key @ ''] is not found''))"
    by (simp add: Get_zero_count)
next
  assume "client_Get cli b pfx True = Inr resp \<and> Count resp = 0"
  then show "EtcdV3_List cli b pfx = Inl (Error (''etcd list prefix['' @ pfx @ ''] is not found''))"
    by (simp add: List_zero_count)
next
  assume "client_Get cli b key False = Inl err"
  then show "EtcdV3_Get cli b key = Inl (Error (''etcd get key['' @ key @ ''] failed: '' @ err))"
    by (simp add: EtcdV3_Get_def)
next
  assume "client_Get cli b key False = Inl err"
  then show "EtcdV3_Get cli b key \<noteq> Inl (Error (''etcd get key['' @ key @ ''] is not found''))"
    by (simp add: EtcdV3_Get_def)
next
  assume "client_Get cli b pfx True = Inl err"
  then show "EtcdV3_List cli b pfx = Inl (Error (''etcd list prefix['' @ pfx @ ''] failed: '' @ err))"
    by (simp add: EtcdV3_List_def)
next
  assume "client_Get cli b pfx True = Inl err"
  then show "EtcdV3_List cli b pfx \<noteq> Inl (Error (''etcd list prefix['' @ pfx @ ''] is not found''))"
    by (simp add: EtcdV3_List_def)
qed

theorem never_written_not_found_witness:
  "''/apisix/routes/2'' \<notin> fst ` set [(''/apisix/routes/1'', ''{}'')]
   \<and> EtcdV3_Get (kv_client None) (kv_written [(''/apisix/routes/1'', ''{}'')]) ''/apisix/routes/2''
       = Inl (Error ''etcd get key[/apisix/routes/2] is not found'')
   \<and> list_all (\<lambda>w. \<not> prefix ''/apisix/services'' (fst w)) [(''/apisix/routes/1'', ''{}'')]
   \<and> EtcdV3_List (kv_client None) (kv_written [(''/apisix/routes/1'', ''{}'')]) ''/apisix/services''
       = Inl (Error ''etcd list prefix[/apisix/services] is not found'')
   \<and> client_Get (kv_client None) [] ''/apisix/routes/2'' False = Inr \<lparr>Count = 0, Kvs = []\<rparr>
   \<and> client_Get (kv_client None) [] ''/apisix/services'' True = Inr \<lparr>Count = 0, Kvs = []\<rparr>
   \<and> EtcdV3_Get (kv_client None) [] ''/apisix/routes/2''
       = Inl (Error ''etcd get key[/apisix/routes/2] is not found'')
   \<and> EtcdV3_List (kv_client None) [] ''/apisix/services''
       = Inl (Error ''etcd list prefix[/apisix/services] is not found'')
   \<and> client_Get (kv_client (Some ''context deadline exceeded'')) [] ''/apisix/routes/2'' False
       = Inl ''context deadline exceeded''
   \<and> client_Get (kv_client (Some ''context deadline exceeded'')) [] ''/apisix/services'' True
       = Inl ''context deadline exceeded''
   \<and> EtcdV3_Get (kv_client (Some ''context deadline exceeded'')) [] ''/apisix/routes/2''
       = Inl (Error ''etcd get key[/apisix/routes/2] failed: context deadline exceeded'')
   \<and> EtcdV3_List (kv_client (Some ''context deadline exceeded'')) [] ''/apisix/services''
       = Inl (Error ''etcd list prefix[/apisix/services] failed: context deadline exceeded'')"
  using never_written_not_found [of "''/apisix/routes/2''" "[(''/apisix/routes/1'', ''{}'')]"
      "''/apisix/services''" "kv_client None" "[]" "\<lparr>Count = 0, Kvs = []\<rparr>" "''unused''"]
    never_written_not_found [of "''/apisix/routes/2''" "[(''/apisix/routes/1'', ''{}'')]"
      "''/apisix/services''" "kv_client (Some ''context deadline exceeded'')" "[]"
      "\<lparr>Count = 0, Kvs = []\<rparr>" "''context deadline exceeded''"]
  by (simp add: kv_client_def kv_range_def)

subsection \<open>Create and Update\<close>

text \<open>
  C9. \<open>Create\<close> and \<open>Update\<close> make the same call \<open>client.Put(ctx, key, value)\<close>: each leaves
  the backend in the state that the put leaves it in, and each succeeds exactly when the
  put succeeds.
\<close>

theorem create_update_same_upsert:
  "snd (EtcdV3_Create cli b key value) = snd (client_Put cli b key value)
   \<and> snd (EtcdV3_Update cli b key value) = snd (client_Put cli b key value)
   \<and> (fst (EtcdV3_Create cli b key value) = None) = (fst (client_Put cli b key value) = None)
   \<and> (fst (EtcdV3_Update cli b key value) = None) = (fst (client_Put cli b key value) = None)"
  by (simp add: EtcdV3_Create_def EtcdV3_Update_def split: prod.splits option.splits)

subsection \<open>The first element of the response\<close>

text \<open>
  C10. \<open>resp.Kvs[0]\<close> is read only after \<open>resp.Count == 0\<close> has failed: when the count
  of every response equals the length of its key-value sequence, neither \<open>Get\<close> nor \<open>List\<close>
  panics.
\<close>

theorem first_element_access_safe:
  "((\<forall>resp. client_Get cli b key False = Inr resp \<longrightarrow> Count resp = int (length (Kvs resp)))
      \<longrightarrow> EtcdV3_Get cli b key \<noteq> Inl (Panic msg))
   \<and> ((\<forall>resp. client_Get cli b pfx True = Inr resp \<longrightarrow> Count resp = int (length (Kvs resp)))
      \<longrightarrow> EtcdV3_List cli b pfx \<noteq> Inl (Panic msg))"
  by (auto simp: EtcdV3_Get_def EtcdV3_List_def Let_def split: sum.splits list.splits)

theorem first_element_access_safe_witness:
  "client_Get (kv_client None) [(''/apisix/routes/1'', ''{}'')] ''/apisix/routes/1'' False
     = Inr \<lparr>Count = 1, Kvs = [\<lparr>Key = ''/apisix/routes/1'', Value = ''{}''\<rparr>]\<rparr>
   \<and> Count \<lparr>Count = 1, Kvs = [\<lparr>Key = ''/apisix/routes/1'', Value = ''{}''\<rparr>]\<rparr>
       = int (length (Kvs \<lparr>Count = 1, Kvs = [\<lparr>Key = ''/apisix/routes/1'', Value = ''{}''\<rparr>]\<rparr>))
   \<and> EtcdV3_Get (kv_client None) [(''/apisix/routes/1'', ''{}'')] ''/apisix/routes/1''
       \<noteq> Inl index_out_of_range
   \<and> client_Get (kv_client None) [(''/apisix/routes/1'', ''{}'')] ''/apisix/routes'' True
     = Inr \<lparr>Count = 1, Kvs = [\<lparr>Key = ''/apisix/routes/1'', Value = ''{}''\<rparr>]\<rparr>
   \<and> EtcdV3_List (kv_client None) [(''/apisix/routes/1'', ''{}'')] ''/apisix/routes''
       \<noteq> Inl index_out_of_range"
  using first_element_access_safe [of "kv_client None" "[(''/apisix/routes/1'', ''{}'')]"
      "''/apisix/routes/1''" "''runtime error: index out of range [0] with length 0''"
      "''/apisix/routes''"]
  by (simp add: kv_client_def kv_range_def index_out_of_range_def)

section \<open>Properties of store.go\<close>

subsection \<open>Store and Delete\<close>

text \<open>
  C7. \<open>Store\<close> on an absent key reports that nothing existed, a second \<open>Store\<close> on the key
  reports that an entry existed, and the cache then holds the second value; whatever the
  cache held, it holds the stored value after \<open>Store\<close>.
\<close>

theorem Store_twice:
  "(cache s k = None \<longrightarrow>
      snd (fst (Store s k v1)) = False
      \<and> snd (fst (Store (snd (Store s k v1)) k v2)) = True
      \<and> cache (snd (Store (snd (Store s k v1)) k v2)) k = Some v2)
   \<and> cache (snd (Store s k v2)) k = Some v2"
  by (simp add: Store_def LoadOrStore_def split: option.splits)

theorem Store_twice_witness:
  "cache (example_store None) ''/apisix/routes/1'' = None
   \<and> snd (fst (Store (example_store None) ''/apisix/routes/1'' example_plain)) = False
   \<and> snd (fst (Store (snd (Store (example_store None) ''/apisix/routes/1'' example_plain))
        ''/apisix/routes/1'' example_route)) = True
   \<and> cache (snd (Store (snd (Store (example_store None) ''/apisix/routes/1'' example_plain))
        ''/apisix/routes/1'' example_route)) ''/apisix/routes/1'' = Some example_route"
  using Store_twice [of "example_store None" "''/apisix/routes/1''" example_plain example_route]
  by (simp add: example_store_def)

text \<open>
  C8. After \<open>Store(k, v)\<close>, \<open>Delete(k)\<close> returns \<open>v\<close> and true and removes the entry; a second
  \<open>Delete(k)\<close> returns nothing and false.
\<close>

theorem Delete_after_Store:
  "fst (GenericStore_Delete (snd (Store s k v)) k) = (Some v, True)
   \<and> cache (snd (GenericStore_Delete (snd (Store s k v)) k)) k = None
   \<and> fst (GenericStore_Delete (snd (GenericStore_Delete (snd (Store s k v)) k)) k) = (None, False)"
  by (simp add: Store_def LoadOrStore_def GenericStore_Delete_def LoadAndDelete_def
      split: option.splits)

subsection \<open>UpdateNodes\<close>

lemma UpdateNodes_checked:
  assumes "key \<noteq> []" and "cache s key = Some obj" and "nodes_of obj = Some old"
    and "obj' = obj\<lparr>nodes_of := Some nds,
                   info_of := map_option (\<lambda>info. Updating E info info) (info_of obj)\<rparr>"
  shows "UpdateNodes E s b key nds =
     (case (if is_aller obj' then entity_Marshal E obj' else json_Marshal E obj') of
        Inl err \<Rightarrow> (Some (Error (''marshal failed: '' @ err)), s\<lparr>cache := (cache s)(key \<mapsto> obj')\<rparr>, b)
      | Inr bs \<Rightarrow> (fst (Stg_Update (Stg s) b key bs), s\<lparr>cache := (cache s)(key \<mapsto> obj')\<rparr>,
                  snd (Stg_Update (Stg s) b key bs)))"
proof (cases "info_of obj")
  case None
  with assms(4) have o: "obj' = obj\<lparr>nodes_of := Some nds\<rparr>"
    by (cases obj) simp
  show ?thesis
    using assms(1-3) None unfolding o
    by (simp add: UpdateNodes_def Let_def case_prod_beta split: sum.split)
next
  case (Some info)
  with assms(4) have o: "obj' = obj\<lparr>nodes_of := Some nds, info_of := Some (Updating E info info)\<rparr>"
    by simp
  show ?thesis
    using assms(1-3) Some unfolding o
    by (simp add: UpdateNodes_def Let_def case_prod_beta split: sum.split)
qed

text \<open>
  C3, as it holds of the code. \<open>UpdateNodes\<close> fails on the empty key; on a key with no
  cached object it fails with the not-found error; on a cached object without the
  node-list capability it fails with "object can't set nodes", and neither the store nor
  the backend changes. Otherwise the node list of the cached object is replaced and
  \<open>Updating\<close> is applied to its base information when it has one; then, when the object
  encodes to \<open>bs\<close>, the result and the backend state are those of the one call
  \<open>Update(key, bs)\<close>, and when the encoding fails, the marshal error is returned and the
  backend receives no call.
\<close>

theorem UpdateNodes_outcomes:
  "UpdateNodes E s b [] nds = (Some (Error ''key is required''), s, b)
   \<and> (key \<noteq> [] \<and> cache s key = None \<longrightarrow>
        UpdateNodes E s b key nds = (Some (Error (''key: '' @ key @ '' is not found'')), s, b))
   \<and> (key \<noteq> [] \<and> cache s key = Some obj \<and> nodes_of obj = None \<longrightarrow>
        UpdateNodes E s b key nds = (Some (Error ''object can't set nodes''), s, b))
   \<and> (key \<noteq> [] \<and> cache s key = Some obj \<and> nodes_of obj = Some old
        \<and> obj' = obj\<lparr>nodes_of := Some nds, info_of := map_option (\<lambda>info. Updating E info info) (info_of obj)\<rparr>
        \<and> (if is_aller obj' then entity_Marshal E obj' else json_Marshal E obj') = Inr bs \<longrightarrow>
        UpdateNodes E s b key nds
          = (fst (Stg_Update (Stg s) b key bs), s\<lparr>cache := (cache s)(key \<mapsto> obj')\<rparr>,
             snd (Stg_Update (Stg s) b key bs)))
   \<and> (key \<noteq> [] \<and> cache s key = Some obj \<and> nodes_of obj = Some old
        \<and> obj' = obj\<lparr>nodes_of := Some nds, info_of := map_option (\<lambda>info. Updating E info info) (info_of obj)\<rparr>
        \<and> (if is_aller obj' then entity_Marshal E obj' else json_Marshal E obj') = Inl merr \<longrightarrow>
        UpdateNodes E s b key nds
          = (Some (Error (''marshal failed: '' @ merr)), s\<lparr>cache := (cache s)(key \<mapsto> obj')\<rparr>, b))"
proof (intro conjI impI)
  show "UpdateNodes E s b [] nds = (Some (Error ''key is required''), s, b)"
    by (simp add: UpdateNodes_def)
next
  assume "key \<noteq> [] \<and> cache s key = None"
  then show "UpdateNodes E s b key nds = (Some (Error (''key: '' @ key @ '' is not found'')), s, b)"
    by (simp add: UpdateNodes_def)
next
  assume "key \<noteq> [] \<and> cache s key = Some obj \<and> nodes_of obj = None"
  then show "UpdateNodes E s b key nds = (Some (Error ''object can't set nodes''), s, b)"
    by (simp add: UpdateNodes_def)
next
  assume a: "key \<noteq> [] \<and> cache s key = Some obj \<and> nodes_of obj = Some old
        \<and> obj' = obj\<lparr>nodes_of := Some nds, info_of := map_option (\<lambda>info. Updating E info info) (info_of obj)\<rparr>
        \<and> (if is_aller obj' then entity_Marshal E obj' else json_Marshal E obj') = Inr bs"
  then have k: "key \<noteq> []" and c: "cache s key = Some obj" and n: "nodes_of obj = Some old"
    and o: "obj' = obj\<lparr>nodes_of := Some nds,
                   info_of := map_option (\<lambda>info. Updating E info info) (info_of obj)\<rparr>"
    and m: "(if is_aller obj' then entity_Marshal E obj' else json_Marshal E obj') = Inr bs"
    by blast+
  show "UpdateNodes E s b key nds
          = (fst (Stg_Update (Stg s) b key bs), s\<lparr>cache := (cache s)(key \<mapsto> obj')\<rparr>,
             snd (Stg_Update (Stg s) b key bs))"
    unfolding UpdateNodes_checked [OF k c n o] m by simp
next
  assume a: "key \<noteq> [] \<and> cache s key = Some obj \<and> nodes_of obj = Some old
        \<and> obj' = obj\<lparr>nodes_of := Some nds, info_of := map_option (\<lambda>info. Updating E info info) (info_of obj)\<rparr>
        \<and> (if is_aller obj' then entity_Marshal E obj' else json_Marshal E obj') = Inl merr"
  then have k: "key \<noteq> []" and c: "cache s key = Some obj" and n: "nodes_of obj = Some old"
    and o: "obj' = obj\<lparr>nodes_of := Some nds,
                   info_of := map_option (\<lambda>info. Updating E info info) (info_of obj)\<rparr>"
    and m: "(if is_aller obj' then entity_Marshal E obj' else json_Marshal E obj') = Inl merr"
    by blast+
  show "UpdateNodes E s b key nds
          = (Some (Error (''marshal failed: '' @ merr)), s\<lparr>cache := (cache s)(key \<mapsto> obj')\<rparr>, b)"
    unfolding UpdateNodes_checked [OF k c n o] m by simp
qed

theorem UpdateNodes_outcomes_witness:
  "UpdateNodes example_codec (example_store None) [] [] [\<lparr>Host = ''10.0.0.1'', Port = 80, Weight = 1\<rparr>]
     = (Some (Error ''key is required''), example_store None, [])
   \<and> UpdateNodes example_codec (example_store None) [] ''/apisix/routes/1''
        [\<lparr>Host = ''10.0.0.1'', Port = 80, Weight = 1\<rparr>]
     = (Some (Error ''key: /apisix/routes/1 is not found''), example_store None, [])
   \<and> cache (snd (Store (example_store None) ''/apisix/routes/1'' example_plain)) ''/apisix/routes/1''
     = Some example_plain
   \<and> nodes_of example_plain = None
   \<and> UpdateNodes example_codec (snd (Store (example_store None) ''/apisix/routes/1'' example_plain)) []
        ''/apisix/routes/1'' [\<lparr>Host = ''10.0.0.1'', Port = 80, Weight = 1\<rparr>]
     = (Some (Error ''object can't set nodes''),
        snd (Store (example_store None) ''/apisix/routes/1'' example_plain), [])
   \<and> cache (snd (Store (example_store None) ''/apisix/routes/1'' (example_route\<lparr>body := ''{}''\<rparr>)))
        ''/apisix/routes/1'' = Some (example_route\<lparr>body := ''{}''\<rparr>)
   \<and> nodes_of (example_route\<lparr>body := ''{}''\<rparr>) = Some []
   \<and> json_Marshal example_codec
        \<lparr>info_of = Some \<lparr>ID = [], CreateTime = 0, UpdateTime = 1\<rparr>,
         nodes_of = Some [\<lparr>Host = ''10.0.0.1'', Port = 80, Weight = 1\<rparr>],
         is_aller = False, body = ''{}''\<rparr> = Inr ''{}''
   \<and> UpdateNodes example_codec
        (snd (Store (example_store None) ''/apisix/routes/1'' (example_route\<lparr>body := ''{}''\<rparr>))) []
        ''/apisix/routes/1'' [\<lparr>Host = ''10.0.0.1'', Port = 80, Weight = 1\<rparr>]
     = (None,
        (example_store None)\<lparr>cache := [''/apisix/routes/1'' \<mapsto>
          \<lparr>info_of = Some \<lparr>ID = [], CreateTime = 0, UpdateTime = 1\<rparr>,
           nodes_of = Some [\<lparr>Host = ''10.0.0.1'', Port = 80, Weight = 1\<rparr>],
           is_aller = False, body = ''{}''\<rparr>]\<rparr>,
        [(''/apisix/routes/1'', ''{}'')])
   \<and> cache (snd (Store (example_store None) ''/apisix/routes/1'' example_route)) ''/apisix/routes/1''
     = Some example_route
   \<and> nodes_of example_route = Some []
   \<and> json_Marshal example_codec
        \<lparr>info_of = Some \<lparr>ID = [], CreateTime = 0, UpdateTime = 1\<rparr>,
         nodes_of = Some [\<lparr>Host = ''10.0.0.1'', Port = 80, Weight = 1\<rparr>],
         is_aller = False, body = []\<rparr> = Inl ''unsupported value''
   \<and> UpdateNodes example_codec
        (snd (Store (example_store None) ''/apisix/routes/1'' example_route))
        [(''/apisix/routes/1'', ''old'')]
        ''/apisix/routes/1'' [\<lparr>Host = ''10.0.0.1'', Port = 80, Weight = 1\<rparr>]
     = (Some (Error ''marshal failed: unsupported value''),
        (example_store None)\<lparr>cache := [''/apisix/routes/1'' \<mapsto>
          \<lparr>info_of = Some \<lparr>ID = [], CreateTime = 0, UpdateTime = 1\<rparr>,
           nodes_of = Some [\<lparr>Host = ''10.0.0.1'', Port = 80, Weight = 1\<rparr>],
           is_aller = False, body = []\<rparr>]\<rparr>,
        [(''/apisix/routes/1'', ''old'')])"
  using UpdateNodes_outcomes [of example_codec "example_store None" "[]"
      "[\<lparr>Host = ''10.0.0.1'', Port = 80, Weight = 1\<rparr>]" "''/apisix/routes/1''"]
    UpdateNodes_outcomes [of example_codec
      "snd (Store (example_store None) ''/apisix/routes/1'' example_plain)" "[]"
      "[\<lparr>Host = ''10.0.0.1'', Port = 80, Weight = 1\<rparr>]" "''/apisix/routes/1''" example_plain]
    UpdateNodes_outcomes [of example_codec
      "snd (Store (example_store None) ''/apisix/routes/1'' (example_route\<lparr>body := ''{}''\<rparr>))" "[]"
      "[\<lparr>Host = ''10.0.0.1'', Port = 80, Weight = 1\<rparr>]" "''/apisix/routes/1''"
      "example_route\<lparr>body := ''{}''\<rparr>" "[]"
      "\<lparr>info_of = Some \<lparr>ID = [], CreateTime = 0, UpdateTime = 1\<rparr>,
        nodes_of = Some [\<lparr>Host = ''10.0.0.1'', Port = 80, Weight = 1\<rparr>],
        is_aller = False, body = ''{}''\<rparr>" "''{}''"]
    UpdateNodes_outcomes [where E = example_codec
      and s = "snd (Store (example_store None) ''/apisix/routes/1'' example_route)"
      and b = "[(''/apisix/routes/1'', ''old'')]"
      and nds = "[\<lparr>Host = ''10.0.0.1'', Port = 80, Weight = 1\<rparr>]"
      and key = "''/apisix/routes/1''" and obj = example_route and old = "[]"
      and obj' = "\<lparr>info_of = Some \<lparr>ID = [], CreateTime = 0, UpdateTime = 1\<rparr>,
        nodes_of = Some [\<lparr>Host = ''10.0.0.1'', Port = 80, Weight = 1\<rparr>],
        is_aller = False, body = []\<rparr>"
      and bs = "''unused''" and merr = "''unsupported value''"]
  by (simp add: example_store_def example_codec_def example_route_def example_plain_def
      Store_def LoadOrStore_def EtcdV3_Interface_def EtcdV3_Update_def kv_client_def)

text \<open>
  C3 as it is stated promises the backend exactly one \<open>Update\<close> call whenever the three
  checks pass. It fails when the changed object does not encode: the route cached at
  \<open>/apisix/routes/1\<close> passes the checks, the marshal error is returned, and the backend
  still holds the old value of the key, where one \<open>Update\<close> call would have replaced it.
\<close>

theorem UpdateNodes_marshal_failure_no_update:
  "cache (snd (Store (example_store None) ''/apisix/routes/1'' example_route)) ''/apisix/routes/1''
     = Some example_route
   \<and> nodes_of example_route = Some []
   \<and> fst (UpdateNodes example_codec
        (snd (Store (example_store None) ''/apisix/routes/1'' example_route))
        [(''/apisix/routes/1'', ''old'')]
        ''/apisix/routes/1'' [\<lparr>Host = ''10.0.0.1'', Port = 80, Weight = 1\<rparr>])
     = Some (Error ''marshal failed: unsupported value'')
   \<and> snd (snd (UpdateNodes example_codec
        (snd (Store (example_store None) ''/apisix/routes/1'' example_route))
        [(''/apisix/routes/1'', ''old'')]
        ''/apisix/routes/1'' [\<lparr>Host = ''10.0.0.1'', Port = 80, Weight = 1\<rparr>]))
     = [(''/apisix/routes/1'', ''old'')]
   \<and> snd (Stg_Update (Stg (example_store None)) [(''/apisix/routes/1'', ''old'')]
        ''/apisix/routes/1'' ''new'')
     = [(''/apisix/routes/1'', ''new'')]"
  by (simp add: UpdateNodes_def example_store_def example_codec_def example_route_def
      Store_def LoadOrStore_def EtcdV3_Interface_def EtcdV3_Update_def kv_client_def)

text \<open>
  C4. A call that has passed the checks on the key, the cache and the capability leaves
  the new node list in the cached object whatever happens next: when the encoding fails,
  the marshal error is returned and the backend is not called; when the backend's
  \<open>Update\<close> fails, its error is returned; in both cases the cache keeps the changed object.
\<close>

theorem UpdateNodes_no_rollback:
  assumes "key \<noteq> []" and "cache s key = Some obj" and "nodes_of obj = Some old"
    and "obj' = obj\<lparr>nodes_of := Some nds,
                   info_of := map_option (\<lambda>info. Updating E info info) (info_of obj)\<rparr>"
  shows "((if is_aller obj' then entity_Marshal E obj' else json_Marshal E obj') = Inl merr \<longrightarrow>
           UpdateNodes E s b key nds
             = (Some (Error (''marshal failed: '' @ merr)), s\<lparr>cache := (cache s)(key \<mapsto> obj')\<rparr>, b))
       \<and> ((if is_aller obj' then entity_Marshal E obj' else json_Marshal E obj') = Inr bs
            \<and> Stg_Update (Stg s) b key bs = (Some err, b') \<longrightarrow>
           UpdateNodes E s b key nds = (Some err, s\<lparr>cache := (cache s)(key \<mapsto> obj')\<rparr>, b'))
       \<and> map_option nodes_of (cache (fst (snd (UpdateNodes E s b key nds))) key) = Some (Some nds)"
proof -
  note u = UpdateNodes_checked [OF assms, of b]
  have n: "nodes_of obj' = Some nds"
    using assms(4) by simp
  have "map_option nodes_of (cache (fst (snd (UpdateNodes E s b key nds))) key) = Some (Some nds)"
    unfolding u using n by (simp split: sum.split)
  moreover have "(if is_aller obj' then entity_Marshal E obj' else json_Marshal E obj') = Inl merr \<longrightarrow>
           UpdateNodes E s b key nds
             = (Some (Error (''marshal failed: '' @ merr)), s\<lparr>cache := (cache s)(key \<mapsto> obj')\<rparr>, b)"
    unfolding u by simp
  moreover have "(if is_aller obj' then entity_Marshal E obj' else json_Marshal E obj') = Inr bs
            \<and> Stg_Update (Stg s) b key bs = (Some err, b') \<longrightarrow>
           UpdateNodes E s b key nds = (Some err, s\<lparr>cache := (cache s)(key \<mapsto> obj')\<rparr>, b')"
    unfolding u by simp
  ultimately show ?thesis by blast
qed

theorem UpdateNodes_no_rollback_witness:
  "cache (snd (Store (example_store None) ''/apisix/routes/1'' example_route)) ''/apisix/routes/1''
     = Some example_route
   \<and> nodes_of example_route = Some []
   \<and> json_Marshal example_codec
        \<lparr>info_of = Some \<lparr>ID = [], CreateTime = 0, UpdateTime = 1\<rparr>,
         nodes_of = Some [\<lparr>Host = ''10.0.0.1'', Port = 80, Weight = 1\<rparr>],
         is_aller = False, body = []\<rparr> = Inl ''unsupported value''
   \<and> fst (UpdateNodes example_codec
        (snd (Store (example_store None) ''/apisix/routes/1'' example_route)) []
        ''/apisix/routes/1'' [\<lparr>Host = ''10.0.0.1'', Port = 80, Weight = 1\<rparr>])
     = Some (Error ''marshal failed: unsupported value'')
   \<and> map_option nodes_of (cache (fst (snd (UpdateNodes example_codec
        (snd (Store (example_store None) ''/apisix/routes/1'' example_route)) []
        ''/apisix/routes/1'' [\<lparr>Host = ''10.0.0.1'', Port = 80, Weight = 1\<rparr>]))) ''/apisix/routes/1'')
     = Some (Some [\<lparr>Host = ''10.0.0.1'', Port = 80, Weight = 1\<rparr>])
   \<and> Stg_Update (Stg (example_store (Some ''context deadline exceeded''))) []
        ''/apisix/routes/1'' ''{}''
     = (Some (Error ''etcd update key[/apisix/routes/1] failed: context deadline exceeded''), [])
   \<and> fst (UpdateNodes example_codec
        (snd (Store (example_store (Some ''context deadline exceeded'')) ''/apisix/routes/1''
           (example_route\<lparr>body := ''{}''\<rparr>))) []
        ''/apisix/routes/1'' [\<lparr>Host = ''10.0.0.1'', Port = 80, Weight = 1\<rparr>])
     = Some (Error ''etcd update key[/apisix/routes/1] failed: context deadline exceeded'')
   \<and> map_option nodes_of (cache (fst (snd (UpdateNodes example_codec
        (snd (Store (example_store (Some ''context deadline exceeded'')) ''/apisix/routes/1''
           (example_route\<lparr>body := ''{}''\<rparr>))) []
        ''/apisix/routes/1'' [\<lparr>Host = ''10.0.0.1'', Port = 80, Weight = 1\<rparr>]))) ''/apisix/routes/1'')
     = Some (Some [\<lparr>Host = ''10.0.0.1'', Port = 80, Weight = 1\<rparr>])"
  using UpdateNodes_no_rollback [where key = "''/apisix/routes/1''"
      and s = "snd (Store (example_store None) ''/apisix/routes/1'' example_route)"
      and obj = example_route and old = "[]"
      and nds = "[\<lparr>Host = ''10.0.0.1'', Port = 80, Weight = 1\<rparr>]" and E = example_codec
      and obj' = "\<lparr>info_of = Some \<lparr>ID = [], CreateTime = 0, UpdateTime = 1\<rparr>,
         nodes_of = Some [\<lparr>Host = ''10.0.0.1'', Port = 80, Weight = 1\<rparr>],
         is_aller = False, body = []\<rparr>"
      and merr = "''unsupported value''" and b = "[]" and bs = "''{}''"
      and err = "Error ''unused''" and b' = "[]"]
    UpdateNodes_no_rollback [where key = "''/apisix/routes/1''"
      and s = "snd (Store (example_store (Some ''context deadline exceeded'')) ''/apisix/routes/1''
           (example_route\<lparr>body := ''{}''\<rparr>))"
      and obj = "example_route\<lparr>body := ''{}''\<rparr>" and old = "[]"
      and nds = "[\<lparr>Host = ''10.0.0.1'', Port = 80, Weight = 1\<rparr>]" and E = example_codec
      and obj' = "\<lparr>info_of = Some \<lparr>ID = [], CreateTime = 0, UpdateTime = 1\<rparr>,
         nodes_of = Some [\<lparr>Host = ''10.0.0.1'', Port = 80, Weight = 1\<rparr>],
         is_aller = False, body = ''{}''\<rparr>"
      and merr = "''unused''" and b = "[]" and bs = "''{}''"
      and err = "Error ''etcd update key[/apisix/routes/1] failed: context deadline exceeded''"
      and b' = "[]"]
  by (simp add: example_store_def example_codec_def example_route_def
      Store_def LoadOrStore_def EtcdV3_Interface_def EtcdV3_Update_def kv_client_def)

subsection \<open>List\<close>

lemma StringToObjPtr_cache [simp]:
  "StringToObjPtr E (s\<lparr>cache := m\<rparr>) str key = StringToObjPtr E s str key"
  by (simp add: StringToObjPtr_def Let_def split: sum.split option.split)

lemma Store_cache: "snd (Store s key v) = s\<lparr>cache := (cache s)(key \<mapsto> v)\<rparr>"
  by (cases "cache s key") (simp_all add: Store_def LoadOrStore_def)

lemma List_accepted_cache [simp]:
  "List_accepted E (s\<lparr>cache := m\<rparr>) f ret = List_accepted E s f ret"
  by (simp add: List_accepted_def)

lemma upd_add_rev_Cons:
  "m(k \<mapsto> v) ++ map_of (rev ps) = m ++ map_of (rev ((k, v) # ps))"
  by (rule ext) (simp add: map_add_def split: option.split)

lemma List_accepted_Cons:
  "StringToObjPtr E s (snd kv) (fst kv) = Inr obj \<Longrightarrow>
     List_accepted E s f (kv # ret)
       = (if accepted f obj then [(fst kv, obj)] else []) @ List_accepted E s f ret"
  by (simp add: List_accepted_def)

lemma List_loop_Cons_Inr:
  "StringToObjPtr E s (snd kv) (fst kv) = Inr obj \<Longrightarrow>
     List_loop E f s (kv # ret) acc
       = (if accepted f obj
          then List_loop E f (s\<lparr>cache := (cache s)(fst kv \<mapsto> obj)\<rparr>) ret (acc @ [obj])
          else List_loop E f s ret acc)"
  by (simp add: Store_cache accepted_def)

lemma List_loop_all_decoded:
  "\<forall>kv \<in> set ret. \<not> isl (StringToObjPtr E s (snd kv) (fst kv)) \<Longrightarrow>
     List_loop E f s ret acc
       = (Inr (acc @ map snd (List_accepted E s f ret)),
          s\<lparr>cache := cache s ++ map_of (rev (List_accepted E s f ret))\<rparr>)"
proof (induction ret arbitrary: s acc)
  case Nil
  show ?case by (simp add: List_accepted_def)
next
  case (Cons kv ret)
  from Cons.prems obtain obj where d: "StringToObjPtr E s (snd kv) (fst kv) = Inr obj"
    by (cases "StringToObjPtr E s (snd kv) (fst kv)") auto
  show ?case
  proof (cases "accepted f obj")
    case True
    let ?s1 = "s\<lparr>cache := (cache s)(fst kv \<mapsto> obj)\<rparr>"
    have "\<forall>x \<in> set ret. \<not> isl (StringToObjPtr E ?s1 (snd x) (fst x))"
      using Cons.prems by simp
    then have "List_loop E f ?s1 ret (acc @ [obj])
        = (Inr ((acc @ [obj]) @ map snd (List_accepted E ?s1 f ret)),
           ?s1\<lparr>cache := cache ?s1 ++ map_of (rev (List_accepted E ?s1 f ret))\<rparr>)"
      by (rule Cons.IH)
    then show ?thesis
      using True by (simp add: List_loop_Cons_Inr [OF d] List_accepted_Cons [OF d] upd_add_rev_Cons
          del: List_loop.simps map_of.simps rev.simps)
  next
    case False
    have "\<forall>x \<in> set ret. \<not> isl (StringToObjPtr E s (snd x) (fst x))"
      using Cons.prems by simp
    then have "List_loop E f s ret acc
        = (Inr (acc @ map snd (List_accepted E s f ret)),
           s\<lparr>cache := cache s ++ map_of (rev (List_accepted E s f ret))\<rparr>)"
      by (rule Cons.IH)
    then show ?thesis
      using False by (simp add: List_loop_Cons_Inr [OF d] List_accepted_Cons [OF d]
          del: List_loop.simps)
  qed
qed

lemma List_loop_decode_error:
  assumes "\<forall>x \<in> set xs. \<not> isl (StringToObjPtr E s (snd x) (fst x))"
    and "StringToObjPtr E s (snd kv) (fst kv) = Inl err"
  shows "List_loop E f s (xs @ kv # ys) acc
       = (Inl err, s\<lparr>cache := cache s ++ map_of (rev (List_accepted E s f xs))\<rparr>)"
  using assms
proof (induction xs arbitrary: s acc)
  case Nil
  then show ?case by (simp add: List_accepted_def)
next
  case (Cons x xs)
  from Cons.prems obtain obj where d: "StringToObjPtr E s (snd x) (fst x) = Inr obj"
    by (cases "StringToObjPtr E s (snd x) (fst x)") auto
  show ?case
  proof (cases "accepted f obj")
    case True
    let ?s1 = "s\<lparr>cache := (cache s)(fst x \<mapsto> obj)\<rparr>"
    have "\<forall>x \<in> set xs. \<not> isl (StringToObjPtr E ?s1 (snd x) (fst x))"
      and "StringToObjPtr E ?s1 (snd kv) (fst kv) = Inl err"
      using Cons.prems by simp_all
    then have "List_loop E f ?s1 (xs @ kv # ys) (acc @ [obj])
        = (Inl err, ?s1\<lparr>cache := cache ?s1 ++ map_of (rev (List_accepted E ?s1 f xs))\<rparr>)"
      by (rule Cons.IH)
    then show ?thesis
      using True by (simp add: List_loop_Cons_Inr [OF d] List_accepted_Cons [OF d] upd_add_rev_Cons
          del: List_loop.simps map_of.simps rev.simps)
  next
    case False
    have "\<forall>x \<in> set xs. \<not> isl (StringToObjPtr E s (snd x) (fst x))"
      and "StringToObjPtr E s (snd kv) (fst kv) = Inl err"
      using Cons.prems by simp_all
    then have "List_loop E f s (xs @ kv # ys) acc
        = (Inl err, s\<lparr>cache := cache s ++ map_of (rev (List_accepted E s f xs))\<rparr>)"
      by (rule Cons.IH)
    then show ?thesis
      using False by (simp add: List_loop_Cons_Inr [OF d] List_accepted_Cons [OF d]
          del: List_loop.simps)
  qed
qed

lemma distinct_fst_List_accepted:
  "distinct (map fst ret) \<Longrightarrow> distinct (map fst (List_accepted E s f ret))"
proof -
  assume d: "distinct (map fst ret)"
  have "map fst (List_accepted E s f ret)
      = map fst (filter (\<lambda>kv. accepted f (projr (StringToObjPtr E s (snd kv) (fst kv)))) ret)"
    by (induction ret) (simp_all add: List_accepted_def)
  with d show ?thesis by (simp add: distinct_map_filter)
qed

text \<open>
  C5. Let \<open>ret\<close> be the listing of the backend. When every entry decodes, \<open>List\<close> returns
  the accepted objects in listing order and the cache is the old cache overwritten, in
  listing order, with each accepted object at its original path (with distinct paths,
  every accepted object is found at its path). When the entry \<open>kv\<close> is the first that
  does not decode, \<open>List\<close> returns its error and the cache is the old cache overwritten
  with the accepted objects of the entries before \<open>kv\<close> only: they stay cached, and the
  entries \<open>ys\<close> after \<open>kv\<close> play no part.
\<close>

theorem GenericStore_List_order_and_errors:
  assumes "Stg_List (Stg s) b (BasePath (opt s)) = (Inr ret, b')"
  shows "((\<forall>kv \<in> set ret. \<not> isl (StringToObjPtr E s (snd kv) (fst kv))) \<longrightarrow>
            GenericStore_List E s b f
              = (Inr (map snd (List_accepted E s f ret)),
                 s\<lparr>cache := cache s ++ map_of (rev (List_accepted E s f ret))\<rparr>, b'))
       \<and> (distinct (map fst ret) \<and> (k, obj) \<in> set (List_accepted E s f ret) \<longrightarrow>
            (cache s ++ map_of (rev (List_accepted E s f ret))) k = Some obj)
       \<and> (ret = xs @ kv # ys \<and> (\<forall>x \<in> set xs. \<not> isl (StringToObjPtr E s (snd x) (fst x)))
            \<and> StringToObjPtr E s (snd kv) (fst kv) = Inl err \<longrightarrow>
            GenericStore_List E s b f
              = (Inl err, s\<lparr>cache := cache s ++ map_of (rev (List_accepted E s f xs))\<rparr>, b'))"
proof (intro conjI impI)
  assume "\<forall>kv \<in> set ret. \<not> isl (StringToObjPtr E s (snd kv) (fst kv))"
  then have "List_loop E f s ret []
       = (Inr ([] @ map snd (List_accepted E s f ret)),
          s\<lparr>cache := cache s ++ map_of (rev (List_accepted E s f ret))\<rparr>)"
    by (rule List_loop_all_decoded)
  then show "GenericStore_List E s b f
              = (Inr (map snd (List_accepted E s f ret)),
                 s\<lparr>cache := cache s ++ map_of (rev (List_accepted E s f ret))\<rparr>, b')"
    by (simp add: GenericStore_List_def assms)
next
  assume a: "distinct (map fst ret) \<and> (k, obj) \<in> set (List_accepted E s f ret)"
  then have "distinct (map fst (rev (List_accepted E s f ret)))"
    by (simp add: distinct_fst_List_accepted rev_map [symmetric])
  moreover from a have "(k, obj) \<in> set (rev (List_accepted E s f ret))" by simp
  ultimately have "map_of (rev (List_accepted E s f ret)) k = Some obj"
    by (rule map_of_is_SomeI)
  then show "(cache s ++ map_of (rev (List_accepted E s f ret))) k = Some obj"
    by (simp add: map_add_def)
next
  assume a: "ret = xs @ kv # ys \<and> (\<forall>x \<in> set xs. \<not> isl (StringToObjPtr E s (snd x) (fst x)))
            \<and> StringToObjPtr E s (snd kv) (fst kv) = Inl err"
  then have "List_loop E f s (xs @ kv # ys) []
       = (Inl err, s\<lparr>cache := cache s ++ map_of (rev (List_accepted E s f xs))\<rparr>)"
    by (intro List_loop_decode_error) simp_all
  with a show "GenericStore_List E s b f
              = (Inl err, s\<lparr>cache := cache s ++ map_of (rev (List_accepted E s f xs))\<rparr>, b')"
    by (simp add: GenericStore_List_def assms)
qed

theorem GenericStore_List_order_and_errors_witness:
  "Stg_List (Stg (example_store None))
       [(''/apisix/routes'', ''init_dir''), (''/apisix/routes/1'', ''{}''), (''/apisix/routes/2'', ''[]'')]
       (BasePath (opt (example_store None)))
     = (Inr [(''/apisix/routes/1'', ''{}''), (''/apisix/routes/2'', ''[]'')],
        [(''/apisix/routes'', ''init_dir''), (''/apisix/routes/1'', ''{}''), (''/apisix/routes/2'', ''[]'')])
   \<and> list_all (\<lambda>kv. \<not> isl (StringToObjPtr example_codec (example_store None) (snd kv) (fst kv)))
        [(''/apisix/routes/1'', ''{}''), (''/apisix/routes/2'', ''[]'')]
   \<and> distinct (map fst [(''/apisix/routes/1'', ''{}''), (''/apisix/routes/2'', ''[]'')])
   \<and> fst (GenericStore_List example_codec (example_store None)
        [(''/apisix/routes'', ''init_dir''), (''/apisix/routes/1'', ''{}''), (''/apisix/routes/2'', ''[]'')]
        (Some (\<lambda>obj. body obj = ''{}'')))
     = Inr [\<lparr>info_of = Some \<lparr>ID = ''1'', CreateTime = 0, UpdateTime = 0\<rparr>, nodes_of = Some [],
             is_aller = False, body = ''{}''\<rparr>]
   \<and> cache (fst (snd (GenericStore_List example_codec (example_store None)
        [(''/apisix/routes'', ''init_dir''), (''/apisix/routes/1'', ''{}''), (''/apisix/routes/2'', ''[]'')]
        (Some (\<lambda>obj. body obj = ''{}''))))) ''/apisix/routes/1''
     = Some \<lparr>info_of = Some \<lparr>ID = ''1'', CreateTime = 0, UpdateTime = 0\<rparr>, nodes_of = Some [],
             is_aller = False, body = ''{}''\<rparr>
   \<and> cache (fst (snd (GenericStore_List example_codec (example_store None)
        [(''/apisix/routes'', ''init_dir''), (''/apisix/routes/1'', ''{}''), (''/apisix/routes/2'', ''[]'')]
        (Some (\<lambda>obj. body obj = ''{}''))))) ''/apisix/routes/2'' = None
   \<and> Stg_List (Stg (example_store None))
       [(''/apisix/routes/1'', ''{}''), (''/apisix/routes/2'', []), (''/apisix/routes/3'', ''{}'')]
       (BasePath (opt (example_store None)))
     = (Inr ([(''/apisix/routes/1'', ''{}'')] @ (''/apisix/routes/2'', []) # [(''/apisix/routes/3'', ''{}'')]),
        [(''/apisix/routes/1'', ''{}''), (''/apisix/routes/2'', []), (''/apisix/routes/3'', ''{}'')])
   \<and> list_all (\<lambda>kv. \<not> isl (StringToObjPtr example_codec (example_store None) (snd kv) (fst kv)))
        [(''/apisix/routes/1'', ''{}'')]
   \<and> StringToObjPtr example_codec (example_store None) [] ''/apisix/routes/2''
     = Inl (unmarshal_failed ''/apisix/routes/2'' ''unexpected end of JSON input'')
   \<and> fst (GenericStore_List example_codec (example_store None)
        [(''/apisix/routes/1'', ''{}''), (''/apisix/routes/2'', []), (''/apisix/routes/3'', ''{}'')] None)
     = Inl (unmarshal_failed ''/apisix/routes/2'' ''unexpected end of JSON input'')
   \<and> cache (fst (snd (GenericStore_List example_codec (example_store None)
        [(''/apisix/routes/1'', ''{}''), (''/apisix/routes/2'', []), (''/apisix/routes/3'', ''{}'')] None)))
        ''/apisix/routes/1''
     = Some \<lparr>info_of = Some \<lparr>ID = ''1'', CreateTime = 0, UpdateTime = 0\<rparr>, nodes_of = Some [],
             is_aller = False, body = ''{}''\<rparr>
   \<and> cache (fst (snd (GenericStore_List example_codec (example_store None)
        [(''/apisix/routes/1'', ''{}''), (''/apisix/routes/2'', []), (''/apisix/routes/3'', ''{}'')] None)))
        ''/apisix/routes/3'' = None"
  using GenericStore_List_order_and_errors [where s = "example_store None" and E = example_codec
      and b = "[(''/apisix/routes'', ''init_dir''), (''/apisix/routes/1'', ''{}''), (''/apisix/routes/2'', ''[]'')]"
      and b' = "[(''/apisix/routes'', ''init_dir''), (''/apisix/routes/1'', ''{}''), (''/apisix/routes/2'', ''[]'')]"
      and ret = "[(''/apisix/routes/1'', ''{}''), (''/apisix/routes/2'', ''[]'')]"
      and f = "Some (\<lambda>obj. body obj = ''{}'')"
      and k = "''/apisix/routes/1''"
      and obj = "\<lparr>info_of = Some \<lparr>ID = ''1'', CreateTime = 0, UpdateTime = 0\<rparr>, nodes_of = Some [],
             is_aller = False, body = ''{}''\<rparr>"
      and xs = "[]" and kv = "(''/apisix/routes/1'', ''{}'')" and ys = "[(''/apisix/routes/2'', ''[]'')]"
      and err = "Error ''unused''"]
    GenericStore_List_order_and_errors [where s = "example_store None" and E = example_codec
      and b = "[(''/apisix/routes/1'', ''{}''), (''/apisix/routes/2'', []), (''/apisix/routes/3'', ''{}'')]"
      and b' = "[(''/apisix/routes/1'', ''{}''), (''/apisix/routes/2'', []), (''/apisix/routes/3'', ''{}'')]"
      and ret = "[(''/apisix/routes/1'', ''{}'')] @ (''/apisix/routes/2'', []) # [(''/apisix/routes/3'', ''{}'')]"
      and f = None
      and k = "''/apisix/routes/1''"
      and obj = "\<lparr>info_of = Some \<lparr>ID = ''1'', CreateTime = 0, UpdateTime = 0\<rparr>, nodes_of = Some [],
             is_aller = False, body = ''{}''\<rparr>"
      and xs = "[(''/apisix/routes/1'', ''{}'')]" and kv = "(''/apisix/routes/2'', [])"
      and ys = "[(''/apisix/routes/3'', ''{}'')]"
      and err = "unmarshal_failed ''/apisix/routes/2'' ''unexpected end of JSON input''"]
  by (simp add: example_store_def example_codec_def example_route_def FromatKey_id_def
      segments_def TrimPrefix_def EtcdV3_Interface_def EtcdV3_List_def kv_client_def kv_range_def
      DirPlaceholder_def Message_Add_def StringToObjPtr_def List_accepted_def accepted_def
      map_add_def)

subsection \<open>StringToObjPtr\<close>

lemma split_on_not_Nil [simp]: "split_on c s \<noteq> []"
  by (induction s) (auto split: list.splits)













end
